theory Spec2Isabelle
  imports Main "HOL-Library.Word"
begin

unbundle bit_operations_syntax

section \<open>Data model (src/types/structure.ts)\<close>

type_synonym byte = "8 word"

text \<open>
  \<^verbatim>\<open>DataType\<close>: the closed union of field kinds, and \<^verbatim>\<open>getDataTypeSize\<close>
  (src/utils/dataTypes.ts), which reads the \<^verbatim>\<open>size\<close> column of \<^verbatim>\<open>DATA_TYPES\<close>;
  \<open>None\<close> is the table's \<^verbatim>\<open>null\<close>.
\<close>

datatype DataType =
  Uint8 | Uint16 | Uint32 | Uint64
  | Int8 | Int16 | Int32 | Int64
  | Float32 | Float64
  | String | Bytes | Struct | Script

fun getDataTypeSize :: "DataType \<Rightarrow> int option" where
  "getDataTypeSize Uint8 = Some 1"
| "getDataTypeSize Uint16 = Some 2"
| "getDataTypeSize Uint32 = Some 4"
| "getDataTypeSize Uint64 = Some 8"
| "getDataTypeSize Int8 = Some 1"
| "getDataTypeSize Int16 = Some 2"
| "getDataTypeSize Int32 = Some 4"
| "getDataTypeSize Int64 = Some 8"
| "getDataTypeSize Float32 = Some 4"
| "getDataTypeSize Float64 = Some 8"
| "getDataTypeSize String = None"
| "getDataTypeSize Bytes = None"
| "getDataTypeSize Struct = None"
| "getDataTypeSize Script = None"

text \<open>
  \<^verbatim>\<open>FieldValueType\<close>. JavaScript numbers are modelled by their integral values
  (\<open>VNumber\<close>); a \<^verbatim>\<open>bigint\<close> is a separate kind of value (\<open>VBigInt\<close>), as
  \<^verbatim>\<open>typeof\<close> and \<^verbatim>\<open>===\<close> distinguish the two. \<open>VBytes\<close> is the
  \<^verbatim>\<open>Uint8Array\<close> that \<^verbatim>\<open>parseValue\<close> hands back for a \<^verbatim>\<open>struct\<close>.
\<close>

datatype FieldValueType =
  VNull
  | VUndefined
  | VNumber int
  | VBigInt int
  | VString string
  | VBoolean bool
  | VBytes "byte list"
  | VArray "FieldValueType list"

datatype Endianness = Big | Little

datatype MappingValue = MNumber int | MString string

record ValueMapping =
  mapValue :: MappingValue
  mapDescription :: string

record BitDescription =
  bitIndex :: int
  descriptionIfSet :: string
  descriptionIfUnset :: "string option"

text \<open>
  \<^verbatim>\<open>FieldDefinition\<close> refers to itself through \<^verbatim>\<open>children\<close>, so it is a
  datatype with one selector per property, in the order of the interface. An optional
  property (\<^verbatim>\<open>length?\<close>) is an \<open>option\<close>, \<open>None\<close> being \<^verbatim>\<open>undefined\<close>.
  Selectors whose source name is taken in HOL carry the prefix \<open>field\<close>.
\<close>

datatype FieldDefinition = FieldDefinition
  (fieldId: string)
  (fieldName: string)
  (fieldType: DataType)
  (fieldLength: "int option")
  (lengthRef: "string option")
  (endianness: Endianness)
  (fieldOffset: "int option")
  (fieldDescription: "string option")
  (repeats: "int option")
  (repeatRef: "string option")
  (fieldChildren: "FieldDefinition list option")
  (substructureRef: "string option")
  (script: "string option")
  (valueMap: "ValueMapping list option")
  (bitDescriptions: "BitDescription list option")

text \<open>\<^verbatim>\<open>ParsedField\<close>, with the prefix \<open>p\<close> on the selectors that would clash.\<close>

datatype ParsedField = ParsedField
  (pDefinition: FieldDefinition)
  (pValue: FieldValueType)
  (rawValue: "byte list")
  (pOffset: int)
  (pLength: int)
  (pChildren: "ParsedField list option")

record SubstructureTemplate =
  templateId :: string
  templateName :: string
  templateDescription :: "string option"
  templateFields :: "FieldDefinition list"

text \<open>
  The \<^verbatim>\<open>BinaryParser\<close> object: the file's bytes, the template catalog and the
  mutable \<^verbatim>\<open>Map\<close> of parsed fields. \<^verbatim>\<open>fileSize\<close> is \<^verbatim>\<open>fileData.size\<close>, which
  every producer of a \<^verbatim>\<open>FileData\<close> sets to \<^verbatim>\<open>file.size\<close> (FileInput.tsx).
\<close>

record BinaryParser =
  "file" :: "byte list"
  substructures :: "SubstructureTemplate list"
  parsedFields :: "string \<rightharpoonup> ParsedField"

definition fileSize :: "BinaryParser \<Rightarrow> int" where
  "fileSize p = int (length (file p))"

section \<open>The host: what the browser supplies\<close>

text \<open>
  A script field is run by \<^verbatim>\<open>new Function(..., definition.script)\<close> followed by a
  call. What that does is decided by the JavaScript engine, not by this repository, so
  it is a parameter of the model. An invocation either throws or returns:
  \<^item> \<open>Threw (Some m)\<close>: construction or call threw a value whose \<^verbatim>\<open>message\<close>
    renders as \<open>m\<close> inside a template literal (a \<^verbatim>\<open>SyntaxError\<close> for a malformed
    script, an \<^verbatim>\<open>Error\<close>, or any object or primitive, whose missing \<^verbatim>\<open>message\<close>
    renders as \<^verbatim>\<open>undefined\<close>);
  \<^item> \<open>Threw None\<close>: the thrown value is \<^verbatim>\<open>null\<close> or \<^verbatim>\<open>undefined\<close>, on which the
    property read \<^verbatim>\<open>error.message\<close> itself raises a \<^verbatim>\<open>TypeError\<close>;
  \<^item> \<open>Returned NotAnObject\<close>: the awaited result is falsy or not of type object;
  \<^item> \<open>Returned (Object v l)\<close>: an object, \<open>v\<close> and \<open>l\<close> being its \<^verbatim>\<open>value\<close> and
    \<^verbatim>\<open>length\<close> properties where it has them.
  The arguments are the script text and what \<^verbatim>\<open>parseScriptField\<close> passes: the file,
  its size, the offset and the map of parsed fields. A script that writes to the objects
  it is handed, or that never returns, is outside the model. A \<open>Host\<close> value is the
  engine in one state: what a script reads from its surroundings (the clock, say) is
  fixed by the host, so two runs at different times are runs on two hosts.
  \<^verbatim>\<open>TextDecoder.decode\<close> is the second thing the host supplies.
\<close>

datatype ScriptReturn =
  NotAnObject
  | Object "FieldValueType option" "FieldValueType option"

datatype ScriptOutcome =
  Threw "string option"
  | Returned ScriptReturn

record Host =
  textDecode :: "byte list \<Rightarrow> string"
  scriptFunction ::
    "string \<Rightarrow> byte list \<Rightarrow> int \<Rightarrow> int \<Rightarrow> (string \<rightharpoonup> ParsedField) \<Rightarrow> ScriptOutcome"

text \<open>
  How a call can end without a \<^verbatim>\<open>ParsedField\<close>:
  \<^item> \<open>Uncaught m\<close>: an exception left the parser (the promise is rejected);
  \<^item> \<open>OutOfFuel\<close>: the nesting of \<^verbatim>\<open>parseField\<close> calls went deeper than the
    bound given to the model (a template that refers to itself never stops nesting);
  \<^item> \<open>Unsupported\<close>: the run needs an IEEE-754 value (a \<^verbatim>\<open>float32\<close> or
    \<^verbatim>\<open>float64\<close> field that is really decoded), which this embedding does not cover.
\<close>

datatype Failure = Uncaught string | OutOfFuel | Unsupported

section \<open>Byte-level helpers\<close>

text \<open>
  \<^verbatim>\<open>readFileSlice\<close> (src/utils/fileReader.ts) reads \<^verbatim>\<open>file.slice(start, end)\<close>.
  \<^verbatim>\<open>Blob.slice\<close> counts a negative bound from the end of the blob and clamps both
  bounds to the blob.
\<close>

definition readFileSlice :: "byte list \<Rightarrow> int \<Rightarrow> int \<Rightarrow> byte list" where
  "readFileSlice f start end =
     (let size = int (length f);
          relativeStart = (if start < 0 then max (size + start) 0 else min start size);
          relativeEnd = (if end < 0 then max (size + end) 0 else min end size);
          span = max (relativeEnd - relativeStart) 0
      in take (nat span) (drop (nat relativeStart) f))"

text \<open>The \<^verbatim>\<open>DataView\<close> getters: \<open>n\<close> bytes from index 0, most significant first
  unless \<^verbatim>\<open>littleEndian\<close>.\<close>

fun bigEndianValue :: "byte list \<Rightarrow> int" where
  "bigEndianValue bs = foldl (\<lambda>acc b. acc * 256 + uint b) 0 bs"

definition getUint :: "nat \<Rightarrow> bool \<Rightarrow> byte list \<Rightarrow> int" where
  "getUint n isLittleEndian data =
     bigEndianValue (if isLittleEndian then rev (take n data) else take n data)"

definition getInt :: "nat \<Rightarrow> bool \<Rightarrow> byte list \<Rightarrow> int" where
  "getInt n isLittleEndian data =
     (let u = getUint n isLittleEndian data
      in if u \<ge> 2 ^ (8 * n - 1) then u - 2 ^ (8 * n) else u)"

text \<open>\<^verbatim>\<open>b.toString(16).padStart(2, '0')\<close> and \<^verbatim>\<open>join(' ')\<close>.\<close>

definition hexDigit :: "nat \<Rightarrow> char" where
  "hexDigit n = ''0123456789abcdef'' ! (n mod 16)"

definition hexByte :: "byte \<Rightarrow> string" where
  "hexByte b = [hexDigit (unat b div 16), hexDigit (unat b mod 16)]"

fun joinWith :: "string \<Rightarrow> string list \<Rightarrow> string" where
  "joinWith sep [] = []"
| "joinWith sep [x] = x"
| "joinWith sep (x # y # ys) = x @ sep @ joinWith sep (y # ys)"

text \<open>A loop counter inside a template literal: \<^verbatim>\<open>`${i}`\<close>.\<close>

fun decimal :: "nat \<Rightarrow> string" where
  "decimal n =
     (if n < 10 then [''0123456789'' ! n]
      else decimal (n div 10) @ [''0123456789'' ! (n mod 10)])"

text \<open>JavaScript truthiness of an optional string: set and not empty.\<close>

fun truthy :: "string option \<Rightarrow> bool" where
  "truthy None = False"
| "truthy (Some s) = (s \<noteq> [])"

section \<open>The parser (BinaryParser, src/utils/binaryParser.ts)\<close>

subsection \<open>parseValue\<close>

text \<open>
  The size check throws an \<^verbatim>\<open>Error\<close>, which \<^verbatim>\<open>parseField\<close> catches: it is
  \<open>Inl (Uncaught m)\<close> here and handled by the caller.
\<close>

definition parseValue :: "Host \<Rightarrow> FieldDefinition \<Rightarrow> byte list \<Rightarrow> Failure + FieldValueType" where
  "parseValue h definition data =
     (let typeSize = getDataTypeSize (fieldType definition) in
      if typeSize \<noteq> None \<and> int (length data) < the typeSize
      then Inl (Uncaught (''Insufficient data: need '' @ decimal (nat (the typeSize))
                  @ '' bytes, got '' @ decimal (length data)))
      else
        let isLittleEndian = (endianness definition = Little) in
        case fieldType definition of
          Uint8 \<Rightarrow> Inr (VNumber (getUint 1 False data))
        | Uint16 \<Rightarrow> Inr (VNumber (getUint 2 isLittleEndian data))
        | Uint32 \<Rightarrow> Inr (VNumber (getUint 4 isLittleEndian data))
        | Uint64 \<Rightarrow> Inr (VBigInt (getUint 8 isLittleEndian data))
        | Int8 \<Rightarrow> Inr (VNumber (getInt 1 False data))
        | Int16 \<Rightarrow> Inr (VNumber (getInt 2 isLittleEndian data))
        | Int32 \<Rightarrow> Inr (VNumber (getInt 4 isLittleEndian data))
        | Int64 \<Rightarrow> Inr (VBigInt (getInt 8 isLittleEndian data))
        | Float32 \<Rightarrow> Inl Unsupported
        | Float64 \<Rightarrow> Inl Unsupported
        | String \<Rightarrow> Inr (VString (textDecode h data))
        | Bytes \<Rightarrow> Inr (VString (joinWith '' '' (map hexByte data)))
        | _ \<Rightarrow> Inr (VBytes data))"

subsection \<open>applyValueMapping\<close>

text \<open>
  \<^verbatim>\<open>m.value === value\<close>: strict equality holds between two numbers or two strings
  that are equal, and between no mapping value (a number or a string) and a value of
  any other kind.
\<close>

fun strictEquals :: "MappingValue \<Rightarrow> FieldValueType \<Rightarrow> bool" where
  "strictEquals (MNumber a) (VNumber b) = (a = b)"
| "strictEquals (MString a) (VString b) = (a = b)"
| "strictEquals _ _ = False"

definition applyValueMapping :: "FieldDefinition \<Rightarrow> FieldValueType \<Rightarrow> FieldValueType" where
  "applyValueMapping definition v =
     (if valueMap definition = None \<or> the (valueMap definition) = [] \<or> v = VNull then v
      else case find (\<lambda>m. strictEquals (mapValue m) v) (the (valueMap definition)) of
             Some mapping \<Rightarrow> VString (mapDescription mapping)
           | None \<Rightarrow> v)"

subsection \<open>applyBitDescriptions\<close>

text \<open>
  \<^verbatim>\<open>(value >> bitIndex) & 1\<close>: the left operand is taken to a signed 32-bit integer,
  the shift count to its low five bits, and the shift keeps the sign.
\<close>

definition toInt32 :: "int \<Rightarrow> int" where
  "toInt32 v = signed_take_bit 31 v"

definition signedShiftRight :: "int \<Rightarrow> int \<Rightarrow> int" where
  "signedShiftRight v k = drop_bit (nat (k mod 32)) (toInt32 v)"

definition bitValue :: "int \<Rightarrow> BitDescription \<Rightarrow> int" where
  "bitValue v bitDesc = (signedShiftRight v (bitIndex bitDesc)) AND 1"

text \<open>The body of the \<^verbatim>\<open>for ... of\<close> loop: one entry, pushing at most one label.\<close>

definition pushBitDescription :: "int \<Rightarrow> string list \<Rightarrow> BitDescription \<Rightarrow> string list" where
  "pushBitDescription v collected bitDesc =
     (if bitValue v bitDesc = 1 \<and> descriptionIfSet bitDesc \<noteq> []
      then collected @ [descriptionIfSet bitDesc]
      else if bitValue v bitDesc = 0 \<and> truthy (descriptionIfUnset bitDesc)
      then collected @ [the (descriptionIfUnset bitDesc)]
      else collected)"

definition applyBitDescriptions :: "FieldDefinition \<Rightarrow> FieldValueType \<Rightarrow> FieldValueType" where
  "applyBitDescriptions definition v =
     (case v of
        VNumber n \<Rightarrow>
          (if bitDescriptions definition = None \<or> the (bitDescriptions definition) = [] then v
           else
             let collected = foldl (pushBitDescription n) [] (the (bitDescriptions definition))
             in if length collected > 0 then VArray (map VString collected) else v)
      | _ \<Rightarrow> v)"

subsection \<open>getFieldLength and getRepeatCount\<close>

text \<open>\<^verbatim>\<open>refField && typeof refField.value === 'number'\<close>, giving the number.\<close>

fun numericValue :: "ParsedField option \<Rightarrow> int option" where
  "numericValue (Some refField) = (case pValue refField of VNumber n \<Rightarrow> Some n | _ \<Rightarrow> None)"
| "numericValue None = None"

definition getFieldLength :: "BinaryParser \<Rightarrow> FieldDefinition \<Rightarrow> int" where
  "getFieldLength p definition =
     (if truthy (lengthRef definition)
         \<and> numericValue (parsedFields p (the (lengthRef definition))) \<noteq> None
      then the (numericValue (parsedFields p (the (lengthRef definition))))
      else if fieldLength definition \<noteq> None then the (fieldLength definition)
      else if getDataTypeSize (fieldType definition) \<noteq> None
      then the (getDataTypeSize (fieldType definition))
      else 1)"

text \<open>\<^verbatim>\<open>definition.repeats || 1\<close>: an absent count and a count of 0 both give 1.\<close>

definition getRepeatCount :: "BinaryParser \<Rightarrow> FieldDefinition \<Rightarrow> int" where
  "getRepeatCount p definition =
     (if truthy (repeatRef definition)
         \<and> numericValue (parsedFields p (the (repeatRef definition))) \<noteq> None
      then the (numericValue (parsedFields p (the (repeatRef definition))))
      else if repeats definition \<noteq> None \<and> the (repeats definition) \<noteq> 0
      then the (repeats definition)
      else 1)"

subsection \<open>parseScriptField\<close>

text \<open>
  The \<^verbatim>\<open>try\<close> block. \<open>Inl e\<close> is a throw inside it, \<open>e\<close> saying how the thrown
  value's \<^verbatim>\<open>message\<close> renders (see \<open>ScriptOutcome\<close>); the two \<^verbatim>\<open>throw new Error\<close>
  of the validation throw an \<^verbatim>\<open>Error\<close> with the message given.
\<close>

definition scriptTry :: "Host \<Rightarrow> BinaryParser \<Rightarrow> FieldDefinition \<Rightarrow> int \<Rightarrow> string option + ParsedField" where
  \<open>scriptTry h p definition offset =
     (case scriptFunction h (the (script definition)) (file p) (fileSize p) offset (parsedFields p) of
        Threw e \<Rightarrow> Inl e
      | Returned NotAnObject \<Rightarrow>
          Inl (Some ''Script must return an object with "value" and "length" properties'')
      | Returned (Object v l) \<Rightarrow>
          (if v = None \<or> l = None
           then Inl (Some ''Script must return an object with "value" and "length" properties'')
           else case the l of
                  VNumber len \<Rightarrow>
                    (if len < 0 then Inl (Some ''Script "length" must be a non-negative number'')
                     else
                       let bytesAvailable = fileSize p - offset;
                           actualLength = min len bytesAvailable;
                           raw = readFileSlice (file p) offset (offset + actualLength)
                       in Inr (ParsedField definition (the v) raw offset actualLength None))
                | _ \<Rightarrow> Inl (Some ''Script "length" must be a non-negative number'')))\<close>

text \<open>
  The \<^verbatim>\<open>catch\<close> handler reads \<^verbatim>\<open>error.message\<close> outside any \<^verbatim>\<open>try\<close>: when that
  read raises, the exception leaves \<^verbatim>\<open>parseScriptField\<close>.
\<close>

definition parseScriptField :: "Host \<Rightarrow> BinaryParser \<Rightarrow> FieldDefinition \<Rightarrow> int \<Rightarrow> Failure + ParsedField" where
  "parseScriptField h p definition offset =
     (if \<not> truthy (script definition)
      then Inr (ParsedField definition VNull [] offset 0 None)
      else case scriptTry h p definition offset of
             Inr parsed \<Rightarrow> Inr parsed
           | Inl None \<Rightarrow> Inl (Uncaught ''TypeError: Cannot read properties of null'')
           | Inl (Some errorMessage) \<Rightarrow>
               Inr (ParsedField definition (VString (''Script Error: '' @ errorMessage)) [] offset 0 None))"

subsection \<open>The child loop of parseSubstructure and of the legacy children\<close>

text \<open>
  Both loops have the same body: stop when \<^verbatim>\<open>childOffset >= this.fileSize\<close>, else
  parse the child with \<^verbatim>\<open>repeatCount = null\<close>, push it and move \<^verbatim>\<open>childOffset\<close>
  behind it. The function returns the children and the final \<^verbatim>\<open>childOffset\<close>.
  \<open>dec\<close> is the recursive call \<^verbatim>\<open>this.parseField\<close>.
\<close>

type_synonym decoder = "FieldDefinition \<Rightarrow> int \<Rightarrow> int option \<Rightarrow> Failure + ParsedField"

fun parseChildren :: "decoder \<Rightarrow> int \<Rightarrow> FieldDefinition list \<Rightarrow> int \<Rightarrow> Failure + (ParsedField list \<times> int)" where
  "parseChildren dec fsize [] childOffset = Inr ([], childOffset)"
| "parseChildren dec fsize (childDef # rest) childOffset =
     (if childOffset \<ge> fsize then Inr ([], childOffset)
      else case dec childDef childOffset None of
             Inl f \<Rightarrow> Inl f
           | Inr childParsed \<Rightarrow>
               (case parseChildren dec fsize rest (pOffset childParsed + pLength childParsed) of
                  Inl f \<Rightarrow> Inl f
                | Inr (childResults, finalOffset) \<Rightarrow> Inr (childParsed # childResults, finalOffset)))"

subsection \<open>parseSubstructure\<close>

definition parseSubstructure :: "decoder \<Rightarrow> BinaryParser \<Rightarrow> FieldDefinition \<Rightarrow> int \<Rightarrow> Failure + ParsedField" where
  "parseSubstructure dec p definition offset =
     (case find (\<lambda>s. Some (templateId s) = substructureRef definition) (substructures p) of
        None \<Rightarrow> Inr (ParsedField definition VNull [] offset 0 None)
      | Some substructure \<Rightarrow>
          (case parseChildren dec (fileSize p) (templateFields substructure) offset of
             Inl f \<Rightarrow> Inl f
           | Inr (childResults, childOffset) \<Rightarrow>
               let totalLength = childOffset - offset;
                   actualBytesToRead = min totalLength (fileSize p - offset);
                   raw = readFileSlice (file p) offset (offset + actualBytesToRead)
               in Inr (ParsedField definition (VArray (map pValue childResults)) raw offset
                         actualBytesToRead (Some childResults))))"

subsection \<open>parseRepeatedField\<close>

text \<open>
  \<^verbatim>\<open>const { ...singleItemDef } = definition\<close> copies every property, and
  \<^verbatim>\<open>{ ...singleItemDef, id: `${definition.id}[${i}]` }\<close> replaces the id only.
\<close>

definition itemDef :: "FieldDefinition \<Rightarrow> nat \<Rightarrow> FieldDefinition" where
  "itemDef definition i =
     FieldDefinition
       (fieldId definition @ ''['' @ decimal i @ '']'')
       (fieldName definition) (fieldType definition) (fieldLength definition)
       (lengthRef definition) (endianness definition) (fieldOffset definition)
       (fieldDescription definition) (repeats definition) (repeatRef definition)
       (fieldChildren definition) (substructureRef definition) (script definition)
       (valueMap definition) (bitDescriptions definition)"

text \<open>
  The \<^verbatim>\<open>for (let i = 0; i < count; i++)\<close> loop, over the remaining values of \<open>i\<close>.
  It returns the children pushed and the final \<^verbatim>\<open>currentOffset\<close>.
\<close>

fun repeatLoop :: "decoder \<Rightarrow> int \<Rightarrow> FieldDefinition \<Rightarrow> nat list \<Rightarrow> int \<Rightarrow> Failure + (ParsedField list \<times> int)" where
  "repeatLoop dec fsize definition [] currentOffset = Inr ([], currentOffset)"
| "repeatLoop dec fsize definition (i # rest) currentOffset =
     (if currentOffset \<ge> fsize then Inr ([], currentOffset)
      else case dec (itemDef definition i) currentOffset (Some 1) of
             Inl f \<Rightarrow> Inl f
           | Inr itemParsed \<Rightarrow>
               (if pValue itemParsed = VNull \<and> pLength itemParsed = 0 then Inr ([], currentOffset)
                else case repeatLoop dec fsize definition rest (pOffset itemParsed + pLength itemParsed) of
                       Inl f \<Rightarrow> Inl f
                     | Inr (children, finalOffset) \<Rightarrow> Inr (itemParsed # children, finalOffset)))"

definition parseRepeatedField :: "decoder \<Rightarrow> BinaryParser \<Rightarrow> FieldDefinition \<Rightarrow> int \<Rightarrow> int \<Rightarrow> Failure + ParsedField" where
  "parseRepeatedField dec p definition offset count =
     (case repeatLoop dec (fileSize p) definition [0 ..< nat count] offset of
        Inl f \<Rightarrow> Inl f
      | Inr (children, currentOffset) \<Rightarrow>
          let totalLength = currentOffset - offset;
              actualBytesToRead = min totalLength (fileSize p - offset);
              raw = readFileSlice (file p) offset (offset + actualBytesToRead)
          in Inr (ParsedField definition (VArray (map pValue children)) raw offset
                    actualBytesToRead (Some children)))"

subsection \<open>parseField\<close>

text \<open>
  The \<^verbatim>\<open>try\<close> block around \<^verbatim>\<open>parseValue\<close> and the two post-processing steps: a
  thrown \<^verbatim>\<open>Error\<close> makes the value \<^verbatim>\<open>null\<close>.
\<close>

definition tryParseValue :: "Host \<Rightarrow> FieldDefinition \<Rightarrow> byte list \<Rightarrow> Failure + FieldValueType" where
  "tryParseValue h definition raw =
     (case parseValue h definition raw of
        Inl (Uncaught m) \<Rightarrow> Inr VNull
      | Inl f \<Rightarrow> Inl f
      | Inr v \<Rightarrow> Inr (applyBitDescriptions definition (applyValueMapping definition v)))"

text \<open>
  \<^verbatim>\<open>parseField\<close> calls itself through the three loops, at a depth the input does
  not bound (a template may refer to itself), so the model carries the depth still
  allowed as its first argument.
\<close>

primrec parseField :: "nat \<Rightarrow> Host \<Rightarrow> BinaryParser \<Rightarrow> FieldDefinition \<Rightarrow> int \<Rightarrow> int option \<Rightarrow> Failure + ParsedField" where
  "parseField 0 h p definition startOffset repeatCount = Inl OutOfFuel"
| "parseField (Suc fuel) h p definition startOffset repeatCount =
     (let offset = (case fieldOffset definition of Some v \<Rightarrow> v | None \<Rightarrow> startOffset) in
      if offset \<ge> fileSize p then Inr (ParsedField definition VNull [] offset 0 None)
      else if fieldType definition = Script then parseScriptField h p definition offset
      else if fieldType definition = Struct \<and> truthy (substructureRef definition)
      then parseSubstructure (parseField fuel h p) p definition offset
      else
        let requestedLength = getFieldLength p definition;
            bytesAvailable = fileSize p - offset;
            actualBytesToRead = min requestedLength bytesAvailable;
            typeSize = getDataTypeSize (fieldType definition)
        in
        if typeSize \<noteq> None \<and> actualBytesToRead < the typeSize
        then Inr (ParsedField definition VNull
                    (readFileSlice (file p) offset (offset + actualBytesToRead))
                    offset requestedLength None)
        else
          let count = (case repeatCount of Some c \<Rightarrow> c | None \<Rightarrow> getRepeatCount p definition) in
          if count > 1 then parseRepeatedField (parseField fuel h p) p definition offset count
          else
            let raw = readFileSlice (file p) offset (offset + actualBytesToRead) in
            case tryParseValue h definition raw of
              Inl f \<Rightarrow> Inl f
            | Inr v \<Rightarrow>
                (if fieldType definition = Struct \<and> fieldChildren definition \<noteq> None \<and> v \<noteq> VNull
                 then case parseChildren (parseField fuel h p) (fileSize p)
                             (the (fieldChildren definition)) offset of
                        Inl f \<Rightarrow> Inl f
                      | Inr (childResults, childOffset) \<Rightarrow>
                          Inr (ParsedField definition v raw offset (childOffset - offset)
                                 (Some childResults))
                 else Inr (ParsedField definition v raw offset requestedLength None)))"

subsection \<open>parseStructure\<close>

text \<open>
  The loop over the top-level fields. It threads the running offset and the parser
  object, whose map gains the field just parsed, and returns the results with the
  parser as the loop leaves it.
\<close>

fun parseStructureLoop ::
  "(BinaryParser \<Rightarrow> decoder) \<Rightarrow> BinaryParser \<Rightarrow> FieldDefinition list \<Rightarrow> int
     \<Rightarrow> Failure + (ParsedField list \<times> BinaryParser)" where
  "parseStructureLoop dec p [] offset = Inr ([], p)"
| "parseStructureLoop dec p (field # rest) offset =
     (case dec p field offset None of
        Inl f \<Rightarrow> Inl f
      | Inr parsed \<Rightarrow>
          let p' = p\<lparr>parsedFields := (parsedFields p)(fieldId field \<mapsto> parsed)\<rparr>;
              offset' = pOffset parsed + pLength parsed
          in if offset' \<ge> fileSize p' then Inr ([parsed], p')
             else case parseStructureLoop dec p' rest offset' of
                    Inl f \<Rightarrow> Inl f
                  | Inr (results, p'') \<Rightarrow> Inr (parsed # results, p''))"

definition parseStructure ::
  "nat \<Rightarrow> Host \<Rightarrow> BinaryParser \<Rightarrow> FieldDefinition list \<Rightarrow> Failure + (ParsedField list \<times> BinaryParser)" where
  "parseStructure fuel h p fieldDefs =
     parseStructureLoop (parseField fuel h) (p\<lparr>parsedFields := Map.empty\<rparr>) fieldDefs 0"

section \<open>The specification's reading, for comparison\<close>



text \<open>
  The specification's bit rule for one entry: the set-label if the bit is set and the
  label exists, the unset-label if the bit is unset and that label exists, else nothing;
  and for the list, the labels of the entries in list order.
\<close>

definition specBitLabel :: "int \<Rightarrow> BitDescription \<Rightarrow> string list" where
  "specBitLabel v b =
     (if bitValue v b = 1
      then (if descriptionIfSet b \<noteq> [] then [descriptionIfSet b] else [])
      else (case descriptionIfUnset b of
              Some u \<Rightarrow> (if u \<noteq> [] then [u] else [])
            | None \<Rightarrow> []))"

definition specBitLabels :: "int \<Rightarrow> BitDescription list \<Rightarrow> string list" where
  "specBitLabels v bs = concat (map (specBitLabel v) bs)"





section \<open>Concrete inputs\<close>

text \<open>
  A host as it stands when its clock reads \<open>t\<close>: text is decoded byte by byte (exact
  on ASCII), and four scripts have their JavaScript meaning: one throws \<^verbatim>\<open>null\<close>,
  one returns a number, one returns the clock, one returns a fixed object. Any other
  text is rejected by \<^verbatim>\<open>new Function\<close> with a \<^verbatim>\<open>SyntaxError\<close>.
\<close>

definition hostAt :: "int \<Rightarrow> Host" where
  "hostAt t =
     \<lparr>textDecode = map (\<lambda>b. char_of (unat b)),
      scriptFunction = (\<lambda>s f n off idx.
        if s = ''throw null;'' then Threw None
        else if s = ''return 7;'' then Returned NotAnObject
        else if s = ''return { value: Date.now(), length: 0 };''
        then Returned (Object (Some (VNumber t)) (Some (VNumber 0)))
        else if s = ''return { value: 42, length: 1 };''
        then Returned (Object (Some (VNumber 42)) (Some (VNumber 1)))
        else Threw (Some ''Unexpected token''))\<rparr>"

definition freshParser :: "byte list \<Rightarrow> SubstructureTemplate list \<Rightarrow> BinaryParser" where
  "freshParser bs templates = \<lparr>file = bs, substructures = templates, parsedFields = Map.empty\<rparr>"

text \<open>A descriptor with the required properties only, as the repository's tests write
  them: \<^verbatim>\<open>{ id, name, type, endianness: 'big' }\<close>.\<close>

definition plainField :: "string \<Rightarrow> DataType \<Rightarrow> FieldDefinition" where
  "plainField i t =
     FieldDefinition i i t None None Big None None None None None None None None None"

text \<open>A script field: \<^verbatim>\<open>{ id, name, type: 'script', endianness: 'big', script }\<close>.\<close>

definition scriptField :: "string \<Rightarrow> string \<Rightarrow> FieldDefinition" where
  "scriptField i src =
     FieldDefinition i i Script None None Big None None None None None None (Some src) None None"

text \<open>A field whose length is taken from the field with id \<open>r\<close>.\<close>

definition lengthRefField :: "string \<Rightarrow> DataType \<Rightarrow> string \<Rightarrow> FieldDefinition" where
  "lengthRefField i t r =
     FieldDefinition i i t None (Some r) Big None None None None None None None None None"




text \<open>The test \<^verbatim>\<open>should parse a repeated field with a fixed count\<close>:
  \<^verbatim>\<open>{ id: 'f1', name: 'shorts', type: 'uint16', repeats: 2, endianness: 'big' }\<close>.\<close>

definition shorts :: FieldDefinition where
  "shorts =
     FieldDefinition ''f1'' ''shorts'' Uint16 None None Big None None (Some 2) None None None
       None None None"

text \<open>What that test expects of the two instances and of the aggregate.\<close>

definition shortsChildren :: "ParsedField list" where
  "shortsChildren =
     [ParsedField
        (FieldDefinition ''f1[0]'' ''shorts'' Uint16 None None Big None None (Some 2) None None
           None None None None)
        (VNumber 0x1234) [0x12, 0x34] 0 2 None,
      ParsedField
        (FieldDefinition ''f1[1]'' ''shorts'' Uint16 None None Big None None (Some 2) None None
           None None None None)
        (VNumber 0x5678) [0x56, 0x78] 2 2 None]"

definition shortsParsed :: ParsedField where
  "shortsParsed =
     ParsedField shorts (VArray [VNumber 0x1234, VNumber 0x5678]) [0x12, 0x34, 0x56, 0x78] 0 4
       (Some shortsChildren)"

text \<open>The test \<^verbatim>\<open>should parse basic unsigned integers in big-endian format\<close>.\<close>

definition threeUnsigned :: "FieldDefinition list" where
  "threeUnsigned = [plainField ''f1'' Uint8, plainField ''f2'' Uint16, plainField ''f3'' Uint32]"

definition threeUnsignedParsed :: "ParsedField list" where
  "threeUnsignedParsed =
     [ParsedField (plainField ''f1'' Uint8) (VNumber 0x01) [1] 0 1 None,
      ParsedField (plainField ''f2'' Uint16) (VNumber 0x0203) [2, 3] 1 2 None,
      ParsedField (plainField ''f3'' Uint32) (VNumber 0x04050607) [4, 5, 6, 7] 3 4 None]"





text \<open>A flags byte described out of bit order: bit 2, then bit 1, then bit 0.\<close>

definition flagsField :: FieldDefinition where
  "flagsField =
     FieldDefinition ''flags'' ''flags'' Uint8 None None Big None None None None None None None None
       (Some [\<lparr>bitIndex = 2, descriptionIfSet = ''c'', descriptionIfUnset = None\<rparr>,
              \<lparr>bitIndex = 1, descriptionIfSet = ''b'', descriptionIfUnset = Some ''not b''\<rparr>,
              \<lparr>bitIndex = 0, descriptionIfSet = ''a'', descriptionIfUnset = None\<rparr>])"

text \<open>A 64-bit field with a value map whose entry is the number 1.\<close>

definition wideField :: FieldDefinition where
  "wideField =
     FieldDefinition ''w'' ''w'' Uint64 None None Big None None None None None None None
       (Some [\<lparr>mapValue = MNumber 1, mapDescription = ''one''\<rparr>]) None"





text \<open>A \<^verbatim>\<open>uint32\<close> whose static length is 1.\<close>

definition shortUint32 :: FieldDefinition where
  "shortUint32 =
     FieldDefinition ''f'' ''f'' Uint32 (Some 1) None Big None None None None None None None None None"


text \<open>A decoder that answers every call with a \<^verbatim>\<open>null\<close> value of length 0.\<close>

definition nullDecoder :: decoder where
  "nullDecoder d off rc = Inr (ParsedField d VNull [] off 0 None)"

section \<open>Supporting lemmas\<close>

subsection \<open>Reading a slice that starts inside the file\<close>

lemma readFileSlice_inside:
  assumes "0 \<le> start" and "start \<le> int (length f)" and "0 \<le> n"
  shows "readFileSlice f start (start + n) = take (nat n) (drop (nat start) f)"
proof -
  let ?size = "int (length f)"
  have rs: "(if start < 0 then max (?size + start) 0 else min start ?size) = start"
    using assms by simp
  have re: "(if start + n < 0 then max (?size + (start + n)) 0 else min (start + n) ?size)
              = min (start + n) ?size"
    using assms by simp
  have unfolded: "readFileSlice f start (start + n)
          = take (nat (max (min (start + n) ?size - start) 0)) (drop (nat start) f)"
    unfolding readFileSlice_def Let_def rs re ..
  have len: "length (drop (nat start) f) = nat (?size - start)"
    using assms by simp
  show ?thesis
  proof (cases "start + n \<le> ?size")
    case True
    then have "max (min (start + n) ?size - start) 0 = n"
      using assms by simp
    with unfolded show ?thesis by simp
  next
    case False
    then have "max (min (start + n) ?size - start) 0 = ?size - start"
      using assms by simp
    moreover have "nat (?size - start) \<le> nat n"
      using False by simp
    ultimately show ?thesis
      using unfolded len by simp
  qed
qed

subsection \<open>Every result carries its descriptor and its resolved offset\<close>





subsection \<open>The two child loops\<close>


lemma repeatLoop_children:
  assumes "repeatLoop dec fsize d idxs off = Inr (cs, off')"
  shows "\<forall>c \<in> set cs. \<not> (pValue c = VNull \<and> pLength c = 0)"
  using assms
proof (induction idxs arbitrary: off cs)
  case Nil
  then show ?case by simp
next
  case (Cons i rest)
  show ?case
  proof (cases "off \<ge> fsize")
    case True
    with Cons.prems show ?thesis by simp
  next
    case False
    with Cons.prems obtain item where item: "dec (itemDef d i) off (Some 1) = Inr item"
      by (auto split: sum.splits)
    show ?thesis
    proof (cases "pValue item = VNull \<and> pLength item = 0")
      case True
      with Cons.prems False item show ?thesis by simp
    next
      case stop: False
      with Cons.prems False item obtain cs' where
        rest: "repeatLoop dec fsize d rest (pOffset item + pLength item) = Inr (cs', off')"
        and cs: "cs = item # cs'"
        by (auto split: sum.splits)
      from Cons.IH [OF rest] stop cs show ?thesis by auto
    qed
  qed
qed

text \<open>What \<^verbatim>\<open>{ ...singleItemDef, id }\<close> keeps and what it replaces.\<close>

lemma itemDef_properties:
  "fieldId (itemDef d i) = fieldId d @ ''['' @ decimal i @ '']''
   \<and> repeats (itemDef d i) = repeats d
   \<and> repeatRef (itemDef d i) = repeatRef d
   \<and> fieldType (itemDef d i) = fieldType d
   \<and> fieldLength (itemDef d i) = fieldLength d
   \<and> lengthRef (itemDef d i) = lengthRef d"
  by (simp add: itemDef_def)

subsection \<open>A field that is neither a script nor a struct\<close>


subsection \<open>The top-level loop\<close>




subsection \<open>Bits and labels\<close>

lemma bitValue_cases: "bitValue v b = 0 \<or> bitValue v b = 1"
  unfolding bitValue_def by (simp add: and_one_eq) presburger

text \<open>For an index from 0 to 31 the JavaScript expression reads that bit of the number.\<close>

lemma bitValue_bit:
  assumes "0 \<le> bitIndex b" and "bitIndex b < 32"
  shows "bitValue v b = (if bit v (nat (bitIndex b)) then 1 else 0)"
proof -
  have k: "nat (bitIndex b mod 32) = nat (bitIndex b)" "nat (bitIndex b) \<le> 31"
    using assms by simp_all
  have "bitValue v b = of_bool (bit (signed_take_bit 31 v) (nat (bitIndex b)))"
    unfolding bitValue_def signedShiftRight_def toInt32_def k
    by (simp add: and_one_eq bit_iff_odd_drop_bit mod2_eq_if)
  also have "\<dots> = of_bool (bit v (nat (bitIndex b)))"
    using k(2) by (simp add: bit_signed_take_bit_iff min_def)
  finally show ?thesis by simp
qed

lemma foldl_pushBitDescription:
  "foldl (pushBitDescription v) acc bs = acc @ specBitLabels v bs"
proof (induction bs arbitrary: acc)
  case Nil
  then show ?case by (simp add: specBitLabels_def)
next
  case (Cons b bs)
  have step: "pushBitDescription v acc b = acc @ specBitLabel v b"
    using bitValue_cases [of v b]
    by (cases "descriptionIfUnset b") (auto simp: pushBitDescription_def specBitLabel_def)
  show ?case
    using Cons.IH [of "acc @ specBitLabel v b"]
    by (simp add: step specBitLabels_def)
qed

subsection \<open>Wide integers\<close>

lemma parseValue_wide_succeeds:
  assumes "fieldType d = Uint64 \<or> fieldType d = Int64" and "8 \<le> length data"
  shows "\<exists>n. parseValue h d data = Inr (VBigInt n)"
  using assms by (auto simp: parseValue_def Let_def)

subsection \<open>Script failures that the handler contains\<close>

lemma scriptTry_failures:
  assumes "scriptFunction h (the (script d)) (file p) (fileSize p) offset (parsedFields p) = out"
  shows "(out = Threw e \<longrightarrow> scriptTry h p d offset = Inl e)
       \<and> (out = Returned NotAnObject \<longrightarrow> (\<exists>m. scriptTry h p d offset = Inl (Some m)))
       \<and> (out = Returned (Object v l)
              \<and> (v = None \<or> l = None \<or> (\<forall>n. l = Some (VNumber n) \<longrightarrow> n < 0))
            \<longrightarrow> (\<exists>m. scriptTry h p d offset = Inl (Some m)))"
  using assms
  by (auto simp: scriptTry_def split: FieldValueType.splits)

lemma parseScriptField_contains_failure:
  assumes "truthy (script d)" and "scriptTry h p d offset = Inl (Some m)"
  shows "parseScriptField h p d offset
           = Inr (ParsedField d (VString (''Script Error: '' @ m)) [] offset 0 None)"
  using assms by (simp add: parseScriptField_def)

subsection \<open>Sibling sequences below the top level\<close>











subsection \<open>Structures without script fields ask nothing of the script engine\<close>








subsection \<open>The repository's tests (src/utils/binaryParser.test.ts)\<close>

text \<open>The model returns what the test suite expects of the parser: unsigned integers
  in both byte orders, a string of fixed length, a string whose length is referenced,
  and a substructure.\<close>

lemma test_big_endian:
  "map_sum id fst
     (parseStructure (Suc 0) (hostAt 0) (freshParser [1, 2, 3, 4, 5, 6, 7, 8] []) threeUnsigned)
   = Inr threeUnsignedParsed"
  by code_simp

lemma test_little_endian:
  "map_sum (\<lambda>f. f) (map pValue \<circ> fst)
     (parseStructure (Suc 0) (hostAt 0) (freshParser [0x01, 0x03, 0x02, 0x07, 0x06, 0x05, 0x04] [])
        [FieldDefinition ''f1'' ''uint8'' Uint8 None None Little None None None None None None None None None,
         FieldDefinition ''f2'' ''uint16'' Uint16 None None Little None None None None None None None None None,
         FieldDefinition ''f3'' ''uint32'' Uint32 None None Little None None None None None None None None None])
   = Inr [VNumber 0x01, VNumber 0x0203, VNumber 0x04050607]"
  by code_simp

lemma test_fixed_string:
  "map_sum (\<lambda>f. f) (map pValue \<circ> fst)
     (parseStructure (Suc 0) (hostAt 0) (freshParser [0x48, 0x65, 0x6c, 0x6c, 0x6f] [])
        [FieldDefinition ''f1'' ''greeting'' String (Some 5) None Big None None None None None None None None None])
   = Inr [VString ''Hello'']"
  by code_simp

lemma test_length_ref:
  "map_sum (\<lambda>f. f) (map (\<lambda>r. (pValue r, pOffset r, pLength r)) \<circ> fst)
     (parseStructure (Suc 0) (hostAt 0) (freshParser [0x05, 0x48, 0x65, 0x6c, 0x6c, 0x6f] [])
        [plainField ''len'' Uint8, lengthRefField ''str'' String ''len''])
   = Inr [(VNumber 5, 0, 1), (VString ''Hello'', 1, 5)]"
  by code_simp

lemma test_substructure:
  "map_sum (\<lambda>f. f) (map (\<lambda>r. (pValue r, pLength r, map_option (map pValue) (pChildren r))) \<circ> fst)
     (parseStructure (Suc (Suc 0)) (hostAt 0)
        (freshParser [0x01, 0x12, 0x34]
           [\<lparr>templateId = ''sub1'', templateName = ''MySub'', templateDescription = None,
             templateFields = [plainField ''s_type'' Uint8, plainField ''s_val'' Uint16]\<rparr>])
        [FieldDefinition ''f1'' ''sub_instance'' Struct None None Big None None None None None
           (Some ''sub1'') None None None])
   = Inr [(VArray [VNumber 0x01, VNumber 0x1234], 3, Some [VNumber 0x01, VNumber 0x1234])]"
  by code_simp

section \<open>The claims\<close>

subsection \<open>C1: the reference scope inside a substructure\<close>




subsection \<open>C2: the descriptor of a repeated instance\<close>

text \<open>
  C2: the source comment says the per-instance descriptor is made by
  \<^verbatim>\<open>removing repeat properties to prevent recursion\<close>, but the rest pattern
  \<^verbatim>\<open>const { ...singleItemDef } = definition\<close> removes nothing. On the repository's own
  repeated-field test the two instances are decoded as the test expects, and each
  still carries \<^verbatim>\<open>repeats: 2\<close> in its descriptor. (The id is replaced and the repeat
  count 1 is passed, so the expansion is not entered again.)
\<close>

theorem repeated_instance_keeps_repeat_properties:
  "map_sum id fst
     (parseStructure (Suc (Suc 0)) (hostAt 0) (freshParser [0x12, 0x34, 0x56, 0x78] []) [shorts])
   = Inr [shortsParsed]
   \<and> map (repeats \<circ> pDefinition) shortsChildren = [Some 2, Some 2]"
  by code_simp

subsection \<open>C3: length and repeat resolution\<close>




subsection \<open>C4: too few bytes for a fixed-size type\<close>

text \<open>
  C4 as stated fails on the raw bytes. The partial result reads
  \<^verbatim>\<open>Math.min(requestedLength, bytesAvailable)\<close> bytes, so a \<^verbatim>\<open>uint32\<close> whose static
  length is 1, decoded where 2 bytes are available, has a 1-byte \<^verbatim>\<open>rawValue\<close>, not
  the 2 available bytes.
\<close>

theorem partial_decode_raw_bytes_counterexample:
  "parseField (Suc 0) (hostAt 0) (freshParser [1, 2] []) shortUint32 0 None
     = Inr (ParsedField shortUint32 VNull [1] 0 1 None)
   \<and> drop 0 (file (freshParser [1, 2] [])) = [1, 2]"
  by code_simp

text \<open>
  C4, amended: for every field of a fixed-size type decoded at a resolved offset inside
  the source, with a requested length that is not negative, if the bytes available from
  that offset are fewer than the type's fixed size then the call returns a result with
  value \<^verbatim>\<open>null\<close>, length equal to the requested length, and \<^verbatim>\<open>rawValue\<close> equal to
  the first requested-length bytes of what is available: exactly the available bytes
  whenever the requested length is at least the available amount, as it is when no
  static length or reference overrides the type's size.
\<close>

theorem insufficient_bytes_for_fixed_size:
  assumes fixed: "getDataTypeSize (fieldType d) = Some k"
      and offset: "offset = (case fieldOffset d of Some v \<Rightarrow> v | None \<Rightarrow> startOffset)"
      and inside: "0 \<le> offset" "offset < fileSize p"
      and short: "fileSize p - offset < k"
      and requested: "0 \<le> getFieldLength p d"
  shows "\<exists>raw. parseField (Suc fuel) h p d startOffset rc
               = Inr (ParsedField d VNull raw offset (getFieldLength p d) None)
          \<and> raw = take (nat (getFieldLength p d)) (drop (nat offset) (file p))
          \<and> (fileSize p - offset \<le> getFieldLength p d \<longrightarrow> raw = drop (nat offset) (file p))"
proof -
  let ?req = "getFieldLength p d"
  let ?avail = "fileSize p - offset"
  from fixed have kind: "fieldType d \<noteq> Script" "fieldType d \<noteq> Struct" by auto
  have partial: "min ?req ?avail < k" using short by simp
  have "readFileSlice (file p) offset (offset + min ?req ?avail)
          = take (nat (min ?req ?avail)) (drop (nat offset) (file p))"
    using inside requested by (intro readFileSlice_inside) (simp_all add: fileSize_def)
  also have "\<dots> = take (nat ?req) (drop (nat offset) (file p))"
  proof (cases "?req \<le> ?avail")
    case True
    then show ?thesis by (simp add: min_def)
  next
    case False
    then have "min ?req ?avail = ?avail" by (simp add: min_def)
    moreover have "length (drop (nat offset) (file p)) = nat ?avail"
      using inside by (simp add: fileSize_def)
    moreover have "nat ?avail \<le> nat ?req" using False by simp
    ultimately show ?thesis by simp
  qed
  finally have raw: "readFileSlice (file p) offset (offset + min ?req ?avail)
          = take (nat ?req) (drop (nat offset) (file p))" .
  have result: "parseField (Suc fuel) h p d startOffset rc
          = Inr (ParsedField d VNull (readFileSlice (file p) offset (offset + min ?req ?avail))
                   offset ?req None)"
    using fixed kind inside partial
    unfolding parseField.simps offset [symmetric] Let_def by simp
  have whole: "take (nat ?req) (drop (nat offset) (file p)) = drop (nat offset) (file p)"
    if "?avail \<le> ?req"
  proof -
    have "length (drop (nat offset) (file p)) = nat ?avail"
      using inside by (simp add: fileSize_def)
    with that show ?thesis by simp
  qed
  from result raw whole show ?thesis by simp
qed

text \<open>The test \<^verbatim>\<open>should handle insufficient data gracefully\<close>: a \<^verbatim>\<open>uint32\<close> over the
  two bytes 01 02.\<close>

theorem insufficient_bytes_for_fixed_size_witness:
  "parseField (Suc 0) (hostAt 0) (freshParser [1, 2] []) (plainField ''f1'' Uint32) 0 None
   = Inr (ParsedField (plainField ''f1'' Uint32) VNull [1, 2] 0 4 None)"
proof -
  let ?p = "freshParser [1, 2] []"
  let ?d = "plainField ''f1'' Uint32"
  have fixed: "getDataTypeSize (fieldType ?d) = Some 4"
    by (simp add: plainField_def)
  have offset: "(0::int) = (case fieldOffset ?d of Some v \<Rightarrow> v | None \<Rightarrow> 0)"
    by (simp add: plainField_def)
  have inside: "(0::int) \<le> 0" "0 < fileSize ?p" and short: "fileSize ?p - 0 < 4"
    by (simp_all add: fileSize_def freshParser_def)
  have requested: "getFieldLength ?p ?d = 4"
    by (simp add: getFieldLength_def plainField_def)
  then have nonneg: "0 \<le> getFieldLength ?p ?d" by simp
  from insufficient_bytes_for_fixed_size [OF fixed offset inside short nonneg, of 0 "hostAt 0" None]
  obtain raw where
    run: "parseField (Suc 0) (hostAt 0) ?p ?d 0 None
            = Inr (ParsedField ?d VNull raw 0 (getFieldLength ?p ?d) None)"
    and raw: "raw = take (nat (getFieldLength ?p ?d)) (drop (nat 0) (file ?p))"
    by blast
  have "raw = [1, 2]"
    unfolding raw requested by (simp add: freshParser_def)
  with run requested show ?thesis by (simp only:)
qed

subsection \<open>C5: the running offset of the top-level driver\<close>



subsection \<open>C6: containment of script failures\<close>

text \<open>
  C6: the \<^verbatim>\<open>try\<close> block catches every throw, but the handler then reads
  \<^verbatim>\<open>error.message\<close> outside it. A script that throws \<^verbatim>\<open>null\<close> (or \<^verbatim>\<open>undefined\<close>)
  makes that read raise a \<^verbatim>\<open>TypeError\<close>, which leaves \<^verbatim>\<open>parseScriptField\<close>,
  \<^verbatim>\<open>parseField\<close> and \<^verbatim>\<open>parseStructure\<close>: the decode is rejected as a whole and the
  sibling after the script field is never decoded. Every other failure is contained,
  as the two lemmas on script failures above show.
\<close>

theorem script_throwing_null_aborts_decode:
  "map_sum id fst
     (parseStructure (Suc 0) (hostAt 0) (freshParser [7, 8] [])
        [scriptField ''s'' ''throw null;'', plainField ''after'' Uint8])
   = Inl (Uncaught ''TypeError: Cannot read properties of null'')"
  by code_simp

subsection \<open>C7: bit descriptions\<close>

text \<open>
  C7: \<^verbatim>\<open>applyBitDescriptions\<close> leaves every value that is not a number as it is. On a
  number it goes through the \<^verbatim>\<open>bitDescriptions\<close> list in list order, takes for each
  entry the bit \<^verbatim>\<open>(value >> bitIndex) & 1\<close>, and collects the set-label when the bit is
  set and the label exists, the unset-label when the bit is unset and that label exists.
  If a label was collected the value becomes the list of labels in that order,
  otherwise the number stays.
\<close>

theorem bit_descriptions_follow_list_order:
  "applyBitDescriptions d v =
     (case v of
        VNumber n \<Rightarrow>
          (let labels = specBitLabels n (case bitDescriptions d of Some bs \<Rightarrow> bs | None \<Rightarrow> [])
           in if labels = [] then VNumber n else VArray (map VString labels))
      | _ \<Rightarrow> v)"
proof (cases v)
  case (VNumber n)
  show ?thesis
  proof (cases "bitDescriptions d")
    case None
    with VNumber show ?thesis
      by (simp add: applyBitDescriptions_def specBitLabels_def)
  next
    case (Some bs)
    have collected: "foldl (pushBitDescription n) [] bs = specBitLabels n bs"
      using foldl_pushBitDescription [of n "[]" bs] by simp
    show ?thesis
    proof (cases "bs = []")
      case True
      with VNumber Some show ?thesis
        by (simp add: applyBitDescriptions_def specBitLabels_def)
    next
      case False
      with VNumber Some show ?thesis
        by (simp add: applyBitDescriptions_def collected Let_def del: foldl_Cons)
    qed
  qed
qed (simp_all add: applyBitDescriptions_def)

text \<open>The value 5 (bits 2 and 0 set) under the entries for bit 2, bit 1, bit 0: the labels
  come out in list order.\<close>

theorem bit_descriptions_follow_list_order_witness:
  "applyBitDescriptions flagsField (VNumber 5)
     = VArray [VString ''c'', VString ''not b'', VString ''a'']"
proof -
  have "specBitLabels 5 (case bitDescriptions flagsField of Some bs \<Rightarrow> bs | None \<Rightarrow> [])
          = [''c'', ''not b'', ''a'']"
    by code_simp
  with bit_descriptions_follow_list_order [of flagsField "VNumber 5"]
  show ?thesis by simp
qed

subsection \<open>C8: determinism\<close>




subsection \<open>C9: value mapping on 64-bit fields\<close>

text \<open>
  C9: for a field of type \<^verbatim>\<open>uint64\<close> or \<^verbatim>\<open>int64\<close> whose raw decode succeeds, the value
  is a \<^verbatim>\<open>bigint\<close>, and \<^verbatim>\<open>applyValueMapping\<close> returns it unchanged whatever the
  \<^verbatim>\<open>valueMap\<close> holds, since no number or string is strictly equal to a \<^verbatim>\<open>bigint\<close>.
\<close>

theorem value_mapping_identity_on_bigint:
  assumes "fieldType d = Uint64 \<or> fieldType d = Int64"
      and "parseValue h d data = Inr v"
  shows "(\<exists>n. v = VBigInt n) \<and> applyValueMapping d v = v"
proof -
  from assms obtain n where v: "v = VBigInt n"
    by (auto simp: parseValue_def Let_def split: if_splits)
  have "find (\<lambda>m. strictEquals (mapValue m) (VBigInt n)) ms = None" for ms :: "ValueMapping list"
    by (induction ms) (auto elim: strictEquals.elims)
  then have "applyValueMapping d (VBigInt n) = VBigInt n"
    by (simp add: applyValueMapping_def)
  with v show ?thesis by simp
qed

text \<open>The eight bytes of the wide integer 1 under a value map with an entry for the
  number 1: the entry does not match.\<close>

theorem value_mapping_identity_on_bigint_witness:
  "parseValue (hostAt 0) wideField [0, 0, 0, 0, 0, 0, 0, 1] = Inr (VBigInt 1)
   \<and> applyValueMapping wideField (VBigInt 1) = VBigInt 1"
proof -
  have kind: "fieldType wideField = Uint64 \<or> fieldType wideField = Int64"
    by (simp add: wideField_def)
  have decoded: "parseValue (hostAt 0) wideField [0, 0, 0, 0, 0, 0, 0, 1] = Inr (VBigInt 1)"
    by code_simp
  from value_mapping_identity_on_bigint [OF kind decoded] decoded
  show ?thesis by simp
qed

subsection \<open>C10: the children of a repeated field\<close>

text \<open>
  C10: in the loop of \<^verbatim>\<open>parseRepeatedField\<close>, an instance that decodes to a \<^verbatim>\<open>null\<close>
  value with length 0 ends the loop before it is pushed; and whenever
  \<^verbatim>\<open>parseRepeatedField\<close> returns, the result has a children array, its value is the
  array of the children's values (so the two have equal length), and no child has both
  a \<^verbatim>\<open>null\<close> value and length 0.
\<close>

theorem repeated_children_never_null_and_empty:
  "(off < fsize \<and> dec (itemDef d i) off (Some 1) = Inr item \<and> pValue item = VNull \<and> pLength item = 0
      \<longrightarrow> repeatLoop dec fsize d (i # rest) off = Inr ([], off))
   \<and> (parseRepeatedField dec p d offset n = Inr r
      \<longrightarrow> (\<exists>cs. pChildren r = Some cs
               \<and> pValue r = VArray (map pValue cs)
               \<and> length (map pValue cs) = length cs
               \<and> (\<forall>c \<in> set cs. \<not> (pValue c = VNull \<and> pLength c = 0))))"
proof (intro conjI impI)
  assume "off < fsize \<and> dec (itemDef d i) off (Some 1) = Inr item
          \<and> pValue item = VNull \<and> pLength item = 0"
  then show "repeatLoop dec fsize d (i # rest) off = Inr ([], off)" by simp
next
  assume r: "parseRepeatedField dec p d offset n = Inr r"
  then obtain cs off' where
    loop: "repeatLoop dec (fileSize p) d [0 ..< nat n] offset = Inr (cs, off')"
    and "pChildren r = Some cs" and "pValue r = VArray (map pValue cs)"
    by (auto simp: parseRepeatedField_def Let_def split: sum.splits prod.splits)
  with repeatLoop_children [OF loop]
  show "\<exists>cs. pChildren r = Some cs \<and> pValue r = VArray (map pValue cs)
          \<and> length (map pValue cs) = length cs
          \<and> (\<forall>c \<in> set cs. \<not> (pValue c = VNull \<and> pLength c = 0))"
    by simp
qed

text \<open>A decoder that answers \<^verbatim>\<open>null\<close> with length 0 ends the loop at once; and the
  repeated-field test yields two children, neither of them \<^verbatim>\<open>null\<close>.\<close>

theorem repeated_children_never_null_and_empty_witness:
  "repeatLoop nullDecoder 4 shorts [0, 1] 0 = Inr ([], 0)
   \<and> pValue shortsParsed = VArray (map pValue shortsChildren)
   \<and> list_all (\<lambda>c. (pValue c, pLength c) \<noteq> (VNull, 0)) shortsChildren"
proof -
  let ?p = "freshParser [0x12, 0x34, 0x56, 0x78] []"
  let ?item = "ParsedField (itemDef shorts 0) VNull [] 0 0 None"
  have stop: "(0::int) < 4 \<and> nullDecoder (itemDef shorts 0) 0 (Some 1) = Inr ?item
              \<and> pValue ?item = VNull \<and> pLength ?item = 0"
    by (simp add: nullDecoder_def)
  have run: "parseRepeatedField (parseField (Suc 0) (hostAt 0) ?p) ?p shorts 0 2 = Inr shortsParsed"
    by code_simp
  have children: "pChildren shortsParsed = Some shortsChildren"
    by (simp add: shortsParsed_def)
  from repeated_children_never_null_and_empty
         [where off = 0 and fsize = 4 and dec = nullDecoder and d = shorts and i = 0
            and item = ?item and rest = "[1]"]
       stop
  have first: "repeatLoop nullDecoder 4 shorts [0, 1] 0 = Inr ([], 0)"
    by blast
  from repeated_children_never_null_and_empty
         [where dec = "parseField (Suc 0) (hostAt 0) ?p" and p = ?p and d = shorts
            and offset = 0 and n = 2 and r = shortsParsed]
       run children
  have second: "pValue shortsParsed = VArray (map pValue shortsChildren)
                \<and> (\<forall>c \<in> set shortsChildren. \<not> (pValue c = VNull \<and> pLength c = 0))"
    by auto
  from first second show ?thesis by (auto simp: list_all_iff)
qed

end
